theory Spec2Isabelle
  imports Complex_Main "HOL-Library.AList"
begin

section \<open>Smart Study Buddy: the helpers and route handlers of app.py\<close>

text \<open>
  The development embeds the answer resolver (\<open>get_answer\<close>), the quiz generator
  (\<open>generate_ai_mcqs\<close>), the study plan generator (\<open>generate_ai_study_plan\<close>) and the
  schedule routes (\<open>create_schedule\<close>, \<open>view_schedule\<close>, \<open>delete_schedule\<close>,
  \<open>save_schedules\<close>) of app.py.

  Conventions. A Python \<open>str\<close> is a \<open>string\<close> whose characters are code points below
  256. A Python \<open>dict\<close> with string keys is an association list in insertion order,
  read with \<open>map_of\<close> and written with \<open>AList.update\<close>. Module-level globals are
  fields of a state record that each function takes and returns. An exception is a value
  of \<open>py_exn\<close>, and a \<open>try\<close> block is a function into \<open>py_exn + 'a\<close> whose
  \<open>Inl\<close> results the handler consumes. Writing a JSON file always succeeds and replaces
  the modelled file content; \<open>print\<close> calls are left out.
\<close>

subsection \<open>Python values and built-ins\<close>

datatype py_exn =
    ValueError
  | TypeError
  | ZeroDivisionError
  | JSONDecodeError
  | GenerationError

text \<open>
  What \<open>json.loads\<close> returns. A number carries its exact value, so that Python's
  \<open>1 == 1.0\<close> is equality of values; the non-standard constants NaN and Infinity are
  not represented. The entries of a \<open>JObj\<close> are those of a dict: their keys are distinct.
\<close>

datatype json =
    JNull
  | JBool bool
  | JNum rat
  | JStr string
  | JArr "json list"
  | JObj "(string \<times> json) list"

text \<open>Python's \<open>==\<close> on such values: \<open>True == 1\<close>, lists elementwise, dicts by key.\<close>

fun py_eq :: "json \<Rightarrow> json \<Rightarrow> bool"
  and py_eq_list :: "json list \<Rightarrow> json list \<Rightarrow> bool"
  and py_eq_items :: "(string \<times> json) list \<Rightarrow> (string \<times> json) list \<Rightarrow> bool" where
  "py_eq JNull JNull = True"
| "py_eq (JBool a) (JBool b) = (a = b)"
| "py_eq (JBool a) (JNum n) = (of_bool a = n)"
| "py_eq (JNum n) (JBool b) = (n = of_bool b)"
| "py_eq (JNum a) (JNum b) = (a = b)"
| "py_eq (JStr a) (JStr b) = (a = b)"
| "py_eq (JArr xs) (JArr ys) = py_eq_list xs ys"
| "py_eq (JObj a) (JObj b) = (length a = length b \<and> py_eq_items a b)"
| "py_eq _ _ = False"
| "py_eq_list [] [] = True"
| "py_eq_list (x # xs) (y # ys) = (py_eq x y \<and> py_eq_list xs ys)"
| "py_eq_list _ _ = False"
| "py_eq_items [] b = True"
| "py_eq_items ((k, v) # a) b =
     (case map_of b k of None \<Rightarrow> False | Some w \<Rightarrow> py_eq v w \<and> py_eq_items a b)"

text \<open>\<open>x in xs\<close> for a list \<open>xs\<close>.\<close>

definition py_in :: "json \<Rightarrow> json list \<Rightarrow> bool" where
  "py_in x xs = list_ex (py_eq x) xs"

text \<open>Truthiness, as \<open>if v:\<close> tests it.\<close>

fun py_truthy :: "json \<Rightarrow> bool" where
  "py_truthy JNull = False"
| "py_truthy (JBool b) = b"
| "py_truthy (JNum n) = (n \<noteq> 0)"
| "py_truthy (JStr s) = (s \<noteq> [])"
| "py_truthy (JArr xs) = (xs \<noteq> [])"
| "py_truthy (JObj kvs) = (kvs \<noteq> [])"

text \<open>
  \<open>for q in v\<close>: a list yields its elements, a dict its keys, a string its characters;
  anything else raises TypeError.
\<close>

fun py_iter :: "json \<Rightarrow> py_exn + json list" where
  "py_iter (JArr xs) = Inr xs"
| "py_iter (JObj kvs) = Inr (map (\<lambda>kv. JStr (fst kv)) kvs)"
| "py_iter (JStr s) = Inr (map (\<lambda>c. JStr [c]) s)"
| "py_iter _ = Inl TypeError"

text \<open>\<open>str.isspace\<close> on code points below 256, and \<open>str.strip()\<close>.\<close>

definition is_space :: "char \<Rightarrow> bool" where
  "is_space c =
     (let n = of_char c :: nat
      in (9 \<le> n \<and> n \<le> 13) \<or> (28 \<le> n \<and> n \<le> 32) \<or> n = 133 \<or> n = 160)"

definition strip :: "string \<Rightarrow> string" where
  "strip s = rev (dropWhile is_space (rev (dropWhile is_space s)))"

text \<open>\<open>s.find(c)\<close> and \<open>s.rfind(c)\<close> for a single character: an index, or -1.\<close>

fun find_char :: "char \<Rightarrow> string \<Rightarrow> int" where
  "find_char c [] = -1"
| "find_char c (x # xs) =
     (if x = c then 0
      else (let r = find_char c xs in if r = -1 then -1 else r + 1))"

definition rfind_char :: "char \<Rightarrow> string \<Rightarrow> int" where
  "rfind_char c s =
     (let r = find_char c (rev s) in if r = -1 then -1 else int (length s) - 1 - r)"

text \<open>\<open>s[i:j]\<close> for indices that are not negative.\<close>

definition slice :: "string \<Rightarrow> int \<Rightarrow> int \<Rightarrow> string" where
  "slice s i j = drop (nat i) (take (nat j) s)"

text \<open>\<open>str(n)\<close> for an integer.\<close>

fun digits_of :: "nat \<Rightarrow> string" where
  "digits_of n =
     (if n < 10 then [''0123456789'' ! n]
      else digits_of (n div 10) @ [''0123456789'' ! (n mod 10)])"

declare digits_of.simps [simp del]

definition py_str :: "int \<Rightarrow> string" where
  "py_str i = (if i < 0 then CHR ''-'' # digits_of (nat (- i)) else digits_of (nat i))"

text \<open>
  \<open>int(s)\<close> for a string: surrounding whitespace, an optional sign, then decimal
  digits, where single underscores may separate digits. Anything else raises ValueError.
  The interpreter's limit on the number of digits is left out.
\<close>

definition is_digit :: "char \<Rightarrow> bool" where
  "is_digit c = (let n = of_char c :: nat in 48 \<le> n \<and> n \<le> 57)"

fun digits_value :: "nat \<Rightarrow> string \<Rightarrow> nat option" where
  "digits_value acc [] = Some acc"
| "digits_value acc [c] =
     (if is_digit c then Some (acc * 10 + (of_char c - 48)) else None)"
| "digits_value acc (c # d # cs) =
     (if is_digit c then
        (if d = CHR ''_'' then
           (case cs of [] \<Rightarrow> None
            | e # es \<Rightarrow> if is_digit e then digits_value (acc * 10 + (of_char c - 48)) cs else None)
         else digits_value (acc * 10 + (of_char c - 48)) (d # cs))
      else None)"

definition py_int :: "string \<Rightarrow> py_exn + int" where
  "py_int s =
     (case strip s of
        [] \<Rightarrow> Inl ValueError
      | c # cs \<Rightarrow>
          (let (neg, ds) = (if c = CHR ''-'' then (True, cs)
                            else if c = CHR ''+'' then (False, cs) else (False, c # cs))
           in if ds = [] then Inl ValueError
              else (case digits_value 0 ds of
                      None \<Rightarrow> Inl ValueError
                    | Some n \<Rightarrow> Inr (if neg then - int n else int n))))"

subsection \<open>The generation client\<close>

text \<open>
  \<open>client\<close> is \<open>None\<close> when no API key is configured. Otherwise
  \<open>client.models.generate_content(model, contents=prompt)\<close> either raises or returns a
  response whose \<open>text\<close> is a string; the client is the function from the prompt to
  that outcome.
\<close>

datatype gen_response = GenRaises | GenText string

type_synonym gen_client = "string \<Rightarrow> gen_response"

subsection \<open>Pre-written questions and the answer cache\<close>

definition questions :: "(string \<times> (string \<times> string) list) list" where
  "questions =
     [(''Math'',
        [(''What is 2+2?'', ''2+2 = 4''),
         (''What is 10-3?'', ''10-3 = 7''),
         (''What is correlation?'',
          ''Correlation measures the relationship between two variables.'')]),
      (''Science'',
        [(''What is H2O?'', ''H2O is water''),
         (''Which planet is nearest to the sun?'', ''Mercury''),
         (''What is Ohm's law?'',
          ''Ohm's law states that V = IR, where V is voltage, I is current, and R is resistance.'')]),
      (''English'',
        [(''Synonym of happy?'', ''Joyful''),
         (''Antonym of fast?'', ''Slow'')]),
      (''Electronics'',
        [(''What does LED stand for?'', ''Light Emitting Diode''),
         (''What is the unit of electric current?'', ''Ampere'')])]"

text \<open>\<open>questions.get(sub, {}).get(question)\<close>\<close>

definition questions_get :: "string \<Rightarrow> string \<Rightarrow> string option" where
  "questions_get sub question =
     (case map_of questions sub of None \<Rightarrow> None | Some qs \<Rightarrow> map_of qs question)"

text \<open>
  The state of the answer resolver: the global \<open>ai_cache\<close>, the content of
  ai\_cache.json (\<open>None\<close> while the file does not exist), and the prompts sent to the
  generation client so far.
\<close>

record answer_state =
  ai_cache :: "(string \<times> string) list"
  ai_cache_file :: "(string \<times> string) list option"
  gen_calls :: "string list"

definition unavailable_message :: string where
  "unavailable_message =
     ''AI features are currently unavailable. Please set your GEMINI_API_KEY in the .env file.''"

definition empty_answer_message :: string where
  "empty_answer_message = ''Sorry, AI could not generate an answer.''"

definition failure_message :: string where
  "failure_message = ''Sorry, the answer could not be generated.''"

definition answer_prompt :: "string \<Rightarrow> string \<Rightarrow> string" where
  "answer_prompt sub question =
     ''Answer this question in simple terms for a student in '' @ sub @ '': '' @ question"

text \<open>The body of the \<open>try\<close> block of \<open>get_answer\<close> (step 3).\<close>

definition get_answer_try ::
  "gen_client \<Rightarrow> string \<Rightarrow> string \<Rightarrow> answer_state \<Rightarrow> (py_exn + string) \<times> answer_state" where
  "get_answer_try gen sub question st =
     (let prompt = answer_prompt sub question;
          st1 = st\<lparr>gen_calls := gen_calls st @ [prompt]\<rparr>
      in case gen prompt of
           GenRaises \<Rightarrow> (Inl GenerationError, st1)
         | GenText t \<Rightarrow>
             (let ans = strip t;
                  st2 = st1\<lparr>ai_cache := AList.update question ans (ai_cache st1)\<rparr>;
                  st3 = st2\<lparr>ai_cache_file := Some (ai_cache st2)\<rparr>
              in (Inr (if ans \<noteq> [] then ans else empty_answer_message), st3)))"

definition get_answer ::
  "gen_client option \<Rightarrow> string \<Rightarrow> string \<Rightarrow> answer_state \<Rightarrow> (py_exn + string) \<times> answer_state" where
  "get_answer client sub question st =
     (case client of
        None \<Rightarrow> (Inr unavailable_message, st)
      | Some gen \<Rightarrow>
          (let ans = questions_get sub question
           in if ans \<noteq> None \<and> ans \<noteq> Some [] then (Inr (the ans), st)
              else if map_of (ai_cache st) question \<noteq> None
                then (Inr (the (map_of (ai_cache st) question)), st)
              else (case get_answer_try gen sub question st of
                      (Inl e, st') \<Rightarrow> (Inr failure_message, st')
                    | (Inr a, st') \<Rightarrow> (Inr a, st'))))"

subsection \<open>Multiple-choice questions\<close>

definition newline :: string where
  "newline = [CHR 0x0A]"

text \<open>A triple-quoted literal that starts with a line break: every line ends with one.\<close>

definition text_block :: "string list \<Rightarrow> string" where
  "text_block ls = newline @ concat (map (\<lambda>l. l @ newline) ls)"

definition mcq_prompt :: "string \<Rightarrow> int \<Rightarrow> string \<Rightarrow> string" where
  \<open>mcq_prompt subject num_questions difficulty = text_block
     [''You are an expert exam question setter.'',
      [],
      ''Generate '' @ py_str num_questions @ '' '' @ difficulty
        @ '' difficulty multiple-choice questions'',
      ''for a Level 3 quiz on the subject: '' @ subject @ ''.'',
      [],
      ''STRICT RULES:'',
      ''- EXACTLY 4 options per question'',
      ''- Answer MUST be one of the options'',
      ''- No explanations'',
      ''- No markdown, no backticks'',
      ''- Output ONLY valid JSON'',
      [],
      ''JSON format:'',
      ''['',
      ''  {'',
      ''    "question": "Question text",'',
      ''    "options": ["Option A", "Option B", "Option C", "Option D"],'',
      ''    "answer": "Option A"'',
      ''  }'',
      '']'']\<close>

text \<open>The list both fallback branches of \<open>generate_ai_mcqs\<close> build.\<close>

definition sample_mcq :: "string \<Rightarrow> int \<Rightarrow> json" where
  "sample_mcq subject i =
     JObj [(''question'', JStr (''Sample '' @ subject @ '' question '' @ py_str (i + 1) @ ''?'')),
           (''options'', JArr [JStr ''Option A'', JStr ''Option B'', JStr ''Option C'',
                               JStr ''Option D'']),
           (''answer'', JStr ''Option A'')]"

definition fallback_mcqs :: "string \<Rightarrow> int \<Rightarrow> json list" where
  "fallback_mcqs subject num_questions = map (sample_mcq subject) [0..num_questions - 1]"

text \<open>The condition of the validation loop.\<close>

definition valid_mcq :: "json \<Rightarrow> bool" where
  "valid_mcq q =
     (case q of
        JObj d \<Rightarrow>
          map_of d ''question'' \<noteq> None \<and> map_of d ''options'' \<noteq> None
          \<and> map_of d ''answer'' \<noteq> None
          \<and> (case (map_of d ''options'', map_of d ''answer'') of
                (Some (JArr opts), Some a) \<Rightarrow> length opts = 4 \<and> py_in a opts
              | _ \<Rightarrow> False)
      | _ \<Rightarrow> False)"

text \<open>
  The body of the \<open>try\<close> block of \<open>generate_ai_mcqs\<close>. \<open>json_loads\<close> stands for
  \<open>json.loads\<close>, with \<open>None\<close> where it raises.
\<close>

definition generate_ai_mcqs_try ::
  "gen_client \<Rightarrow> (string \<Rightarrow> json option) \<Rightarrow> string \<Rightarrow> int \<Rightarrow> string \<Rightarrow> py_exn + json list" where
  "generate_ai_mcqs_try gen json_loads subject num_questions difficulty =
     (case gen (mcq_prompt subject num_questions difficulty) of
        GenRaises \<Rightarrow> Inl GenerationError
      | GenText t \<Rightarrow>
          (let text = strip t;
               start = find_char CHR ''['' text;
               end = rfind_char CHR '']'' text + 1
           in if start = -1 \<or> end = 0 then Inl ValueError
              else (case json_loads (slice text start end) of
                      None \<Rightarrow> Inl JSONDecodeError
                    | Some mcqs \<Rightarrow>
                        (case py_iter mcqs of
                           Inl e \<Rightarrow> Inl e
                         | Inr qs \<Rightarrow>
                             (let validated_mcqs = filter valid_mcq qs
                              in if validated_mcqs = [] then Inl ValueError
                                 else Inr validated_mcqs)))))"

definition generate_ai_mcqs ::
  "gen_client option \<Rightarrow> (string \<Rightarrow> json option) \<Rightarrow> string \<Rightarrow> int \<Rightarrow> string \<Rightarrow> py_exn + json list" where
  "generate_ai_mcqs client json_loads subject num_questions difficulty =
     (case client of
        None \<Rightarrow> Inr (fallback_mcqs subject num_questions)
      | Some gen \<Rightarrow>
          (case generate_ai_mcqs_try gen json_loads subject num_questions difficulty of
             Inl e \<Rightarrow> Inr (fallback_mcqs subject num_questions)
           | Inr validated_mcqs \<Rightarrow> Inr validated_mcqs))"

subsection \<open>Study plans\<close>

definition py_str_opt :: "string option \<Rightarrow> string" where
  "py_str_opt s = (case s of None \<Rightarrow> ''None'' | Some t \<Rightarrow> t)"

fun join :: "string \<Rightarrow> string list \<Rightarrow> string" where
  "join sep [] = []"
| "join sep [x] = x"
| "join sep (x # y # ys) = x @ sep @ join sep (y # ys)"

definition study_plan_prompt :: "string option \<Rightarrow> string list \<Rightarrow> int \<Rightarrow> int \<Rightarrow> string" where
  \<open>study_plan_prompt exam_type subjects weeks hours_per_day = text_block
     [''Create a detailed '' @ py_str weeks @ ''-week study schedule for ''
        @ py_str_opt exam_type @ '' exam preparation.'',
      ''Subjects to cover: '' @ join '', '' subjects,
      ''Study hours per day: '' @ py_str hours_per_day,
      [],
      ''Provide a week-by-week breakdown with:'',
      ''- Topics to cover each week'',
      ''- Daily time allocation for each subject'',
      ''- Revision periods'',
      ''- Mock test schedules'',
      [],
      ''Format as JSON array with weekly plans:'',
      ''['',
      ''  {'',
      ''    "week": 1,'',
      ''    "focus": "Foundation Building",'',
      ''    "daily_schedule": {'',
      ''      "Monday": {"subject": "Subject 1", "topics": ["Topic A", "Topic B"], "hours": 4},'',
      ''      "Tuesday": {"subject": "Subject 2", "topics": ["Topic C"], "hours": 4}'',
      ''    }'',
      ''  }'',
      '']'']\<close>

text \<open>
  The body of the \<open>try\<close> block of \<open>generate_ai_study_plan\<close>; \<open>Inr None\<close> is its
  \<open>return None\<close>.
\<close>

definition generate_ai_study_plan_try ::
  "gen_client \<Rightarrow> (string \<Rightarrow> json option) \<Rightarrow> string option \<Rightarrow> string list \<Rightarrow> int \<Rightarrow> int
     \<Rightarrow> py_exn + json option" where
  "generate_ai_study_plan_try gen json_loads exam_type subjects weeks hours_per_day =
     (case gen (study_plan_prompt exam_type subjects weeks hours_per_day) of
        GenRaises \<Rightarrow> Inl GenerationError
      | GenText t \<Rightarrow>
          (let text = strip t;
               start = find_char CHR ''['' text;
               end = rfind_char CHR '']'' text + 1
           in if start \<noteq> -1 \<and> end > 0
              then (case json_loads (slice text start end) of
                      None \<Rightarrow> Inl JSONDecodeError
                    | Some plan \<Rightarrow> Inr (Some plan))
              else Inr None))"

definition generate_ai_study_plan ::
  "gen_client option \<Rightarrow> (string \<Rightarrow> json option) \<Rightarrow> string option \<Rightarrow> string list \<Rightarrow> int \<Rightarrow> int
     \<Rightarrow> json option" where
  "generate_ai_study_plan client json_loads exam_type subjects weeks hours_per_day =
     (case client of
        None \<Rightarrow> None
      | Some gen \<Rightarrow>
          (case generate_ai_study_plan_try gen json_loads exam_type subjects weeks hours_per_day of
             Inl e \<Rightarrow> None
           | Inr plan \<Rightarrow> plan))"

subsection \<open>Exam presets\<close>

record preset =
  preset_name :: string
  preset_subjects :: "string list"
  duration_weeks :: int
  description :: string

definition EXAM_PRESETS :: "(string \<times> preset) list" where
  "EXAM_PRESETS =
     [(''GATE'',
        \<lparr>preset_name = ''GATE (Graduate Aptitude Test in Engineering)'',
         preset_subjects = [''Engineering Mathematics'', ''General Aptitude'',
                            ''Technical Subject'', ''Data Structures'', ''Algorithms''],
         duration_weeks = 24,
         description = ''Comprehensive preparation for GATE exam''\<rparr>),
      (''JEE'',
        \<lparr>preset_name = ''JEE (Joint Entrance Examination)'',
         preset_subjects = [''Physics'', ''Chemistry'', ''Mathematics''],
         duration_weeks = 52,
         description = ''Complete JEE Main and Advanced preparation''\<rparr>),
      (''NEET'',
        \<lparr>preset_name = ''NEET (National Eligibility cum Entrance Test)'',
         preset_subjects = [''Physics'', ''Chemistry'', ''Biology (Botany)'',
                            ''Biology (Zoology)''],
         duration_weeks = 48,
         description = ''Medical entrance exam preparation''\<rparr>),
      (''CAT'',
        \<lparr>preset_name = ''CAT (Common Admission Test)'',
         preset_subjects = [''Quantitative Ability'', ''Verbal Ability'',
                            ''Data Interpretation'', ''Logical Reasoning''],
         duration_weeks = 32,
         description = ''MBA entrance exam preparation''\<rparr>),
      (''UPSC'',
        \<lparr>preset_name = ''UPSC Civil Services'',
         preset_subjects = [''History'', ''Geography'', ''Polity'', ''Economy'',
                            ''Science & Technology'', ''Current Affairs''],
         duration_weeks = 52,
         description = ''Civil Services examination preparation''\<rparr>),
      (''Custom'',
        \<lparr>preset_name = ''Custom Exam Preparation'',
         preset_subjects = [],
         duration_weeks = 12,
         description = ''Create your own study schedule''\<rparr>)]"

subsection \<open>Study schedules\<close>

text \<open>
  A schedule is a dict. The keys \<open>ai_plan\<close>, \<open>current_week\<close> and \<open>progress\<close> are
  \<open>None\<close> while the dict does not have them. \<open>progress\<close> is a Python float; its
  arithmetic is carried out on exact rationals here.
\<close>

record schedule =
  sched_id :: int
  name :: string
  exam_type :: "string option"
  subjects :: "string list"
  weeks :: int
  hours_per_day :: int
  created_date :: string
  start_date :: string
  status :: string
  ai_plan :: "json option"
  current_week :: "int option"
  progress :: "rat option"

text \<open>
  The global \<open>study_schedules\<close> is a list of references to dicts: \<open>heap\<close> maps a
  reference to the dict it points to, and \<open>next_ref\<close> is the next unused reference.
  \<open>schedules_file\<close> is the content of study\_schedules.json, \<open>None\<close> while the file
  does not exist.
\<close>

record store =
  study_schedules :: "nat list"
  heap :: "nat \<Rightarrow> schedule option"
  next_ref :: nat
  schedules_file :: "schedule list option"

definition empty_store :: store where
  "empty_store =
     \<lparr>study_schedules = [], heap = (\<lambda>r. None), next_ref = 0, schedules_file = None\<rparr>"

text \<open>The dicts the list refers to, in order: what \<open>json.dump\<close> serialises.\<close>

definition records :: "store \<Rightarrow> schedule list" where
  "records st = List.map_filter (heap st) (study_schedules st)"

text \<open>\<open>s["id"]\<close> for a reference \<open>s\<close>.\<close>

definition id_at :: "store \<Rightarrow> nat \<Rightarrow> int option" where
  "id_at st r = map_option sched_id (heap st r)"

definition save_schedules :: "store \<Rightarrow> store" where
  "save_schedules st = st\<lparr>schedules_file := Some (records st)\<rparr>"

text \<open>
  The clock and the date parser. \<open>strptime s\<close> is the day number of the date that
  \<open>datetime.strptime(s, "%Y-%m-%d")\<close> returns (midnight of that day), \<open>None\<close> where it
  raises ValueError. \<open>today\<close> is the day number of \<open>datetime.now()\<close> and
  \<open>today_str\<close> its \<open>strftime("%Y-%m-%d")\<close>. The \<open>days\<close> of a timedelta are its
  floor, so \<open>(datetime.now() - start_date).days\<close> is the difference of the day numbers.
\<close>

record clock =
  strptime :: "string \<Rightarrow> int option"
  today :: int
  today_str :: string

text \<open>The fields of the posted form; \<open>None\<close> is a field the request does not have.\<close>

record form =
  form_exam_type :: "string option"
  form_custom_name :: "string option"
  form_weeks :: "string option"
  form_hours_per_day :: "string option"
  form_subjects :: "string list"
  form_start_date :: "string option"

text \<open>
  The POST branch of \<open>create_schedule\<close>. The result is the id the redirect names.
  \<open>int(...)\<close> raises before anything is stored. A local variable that has the name
  of a key of the schedule dict carries a prime here.
\<close>

definition create_schedule ::
  "gen_client option \<Rightarrow> (string \<Rightarrow> json option) \<Rightarrow> clock \<Rightarrow> form \<Rightarrow> store
     \<Rightarrow> py_exn + (int \<times> store)" where
  "create_schedule client json_loads clk f st =
     (let exam_type' = form_exam_type f;
          custom_name = (case form_custom_name f of None \<Rightarrow> [] | Some n \<Rightarrow> n)
      in case (case form_weeks f of None \<Rightarrow> Inr 12 | Some s \<Rightarrow> py_int s) of
           Inl e \<Rightarrow> Inl e
         | Inr weeks' \<Rightarrow>
        (case (case form_hours_per_day f of None \<Rightarrow> Inr 4 | Some s \<Rightarrow> py_int s) of
           Inl e \<Rightarrow> Inl e
         | Inr hours_per_day' \<Rightarrow>
        (let preset = (case exam_type' of
                         None \<Rightarrow> None
                       | Some t \<Rightarrow> if t \<noteq> ''Custom'' then map_of EXAM_PRESETS t else None);
             schedule_name = (case preset of
                                Some p \<Rightarrow> preset_name p
                              | None \<Rightarrow> if custom_name \<noteq> [] then custom_name
                                        else ''Custom Study Plan'');
             subjects' = (case preset of
                           Some p \<Rightarrow> if form_subjects f = [] then preset_subjects p
                                     else form_subjects f
                         | None \<Rightarrow> form_subjects f);
             schedule =
               \<lparr>sched_id = int (length (study_schedules st)) + 1,
                name = schedule_name,
                exam_type = exam_type',
                subjects = subjects',
                weeks = weeks',
                hours_per_day = hours_per_day',
                created_date = today_str clk,
                start_date = (case form_start_date f of None \<Rightarrow> today_str clk | Some d \<Rightarrow> d),
                status = ''active'',
                ai_plan = None,
                current_week = None,
                progress = None\<rparr>;
             plan = generate_ai_study_plan client json_loads exam_type' subjects' weeks'
                      hours_per_day';
             schedule = (case plan of
                           None \<Rightarrow> schedule
                         | Some p \<Rightarrow> if py_truthy p then schedule\<lparr>ai_plan := Some p\<rparr>
                                     else schedule);
             r = next_ref st;
             st1 = st\<lparr>heap := (heap st)(r \<mapsto> schedule), next_ref := r + 1\<rparr>;
             st2 = st1\<lparr>study_schedules := study_schedules st1 @ [r]\<rparr>
         in Inr (sched_id schedule, save_schedules st2))))"

text \<open>\<open>round(x, 1)\<close>: to one decimal place, a tie to the even neighbour.\<close>

definition py_round1 :: "rat \<Rightarrow> rat" where
  "py_round1 x =
     (let y = x * 10;
          f = \<lfloor>y\<rfloor>;
          d = y - of_int f;
          n = (if d < 1 / 2 then f else if 1 / 2 < d then f + 1
               else if even f then f else f + 1)
      in of_int n / 10)"

datatype view_response = NotFound | Rendered schedule

text \<open>
  \<open>view_schedule\<close>. \<open>next(...)\<close> yields the first reference whose dict has the id;
  the two item assignments write to the dict behind that reference.
\<close>

definition view_schedule :: "clock \<Rightarrow> int \<Rightarrow> store \<Rightarrow> py_exn + (view_response \<times> store)" where
  "view_schedule clk schedule_id st =
     (case List.find (\<lambda>r. id_at st r = Some schedule_id) (study_schedules st) of
        None \<Rightarrow> Inr (NotFound, st)
      | Some r \<Rightarrow>
          (case heap st r of
             None \<Rightarrow> Inr (NotFound, st)
           | Some schedule \<Rightarrow>
               (case strptime clk (start_date schedule) of
                  None \<Rightarrow> Inl ValueError
                | Some start \<Rightarrow>
                    (let days_elapsed = today clk - start;
                         current_week' = min (days_elapsed div 7 + 1) (weeks schedule)
                     in if weeks schedule = 0 then Inl ZeroDivisionError
                        else
                          (let progress' = min (of_int current_week' / of_int (weeks schedule) * 100) 100;
                               schedule1 = schedule\<lparr>current_week := Some current_week'\<rparr>;
                               schedule2 = schedule1\<lparr>progress := Some (py_round1 progress')\<rparr>;
                               st1 = st\<lparr>heap := (heap st)(r \<mapsto> schedule2)\<rparr>
                           in Inr (Rendered schedule2, st1))))))"

definition delete_schedule :: "int \<Rightarrow> store \<Rightarrow> store" where
  "delete_schedule schedule_id st =
     save_schedules
       (st\<lparr>study_schedules := filter (\<lambda>r. id_at st r \<noteq> Some schedule_id) (study_schedules st)\<rparr>)"

text \<open>
  Requests to the store, and a run of them in order. A request that raises leaves the
  store as it was: each handler raises before its first assignment.
\<close>

datatype operation = Create form | View int | Delete int

fun apply_operation ::
  "gen_client option \<Rightarrow> (string \<Rightarrow> json option) \<Rightarrow> clock \<Rightarrow> operation \<Rightarrow> store \<Rightarrow> store" where
  "apply_operation client json_loads clk (Create f) st =
     (case create_schedule client json_loads clk f st of Inl e \<Rightarrow> st | Inr (i, st') \<Rightarrow> st')"
| "apply_operation client json_loads clk (View i) st =
     (case view_schedule clk i st of Inl e \<Rightarrow> st | Inr (response, st') \<Rightarrow> st')"
| "apply_operation client json_loads clk (Delete i) st = delete_schedule i st"

definition run_operations ::
  "gen_client option \<Rightarrow> (string \<Rightarrow> json option) \<Rightarrow> clock \<Rightarrow> operation list \<Rightarrow> store \<Rightarrow> store" where
  "run_operations client json_loads clk ops st =
     foldl (\<lambda>s operation. apply_operation client json_loads clk operation s) st ops"

subsection \<open>Stubs and example inputs\<close>

text \<open>A client whose call raises, and one that answers every prompt with the same text.\<close>

definition raising_client :: gen_client where
  "raising_client prompt = GenRaises"

definition replying_client :: "string \<Rightarrow> gen_client" where
  "replying_client t prompt = GenText t"

text \<open>A parser that rejects every text, and one that returns the same value for all.\<close>

definition rejecting_loads :: "string \<Rightarrow> json option" where
  "rejecting_loads s = None"

definition constant_loads :: "json \<Rightarrow> string \<Rightarrow> json option" where
  "constant_loads v s = Some v"

definition no_answers :: answer_state where
  "no_answers = \<lparr>ai_cache = [], ai_cache_file = None, gen_calls = []\<rparr>"

text \<open>
  A clock on 2024-01-11, with day numbers counted from 2024-01-01; the parser knows
  three dates.
\<close>

definition example_strptime :: "string \<Rightarrow> int option" where
  "example_strptime s =
     (if s = ''2024-01-01'' then Some 0
      else if s = ''2024-01-11'' then Some 10
      else if s = ''2024-01-12'' then Some 11
      else None)"

definition example_clock :: clock where
  "example_clock = \<lparr>strptime = example_strptime, today = 10, today_str = ''2024-01-11''\<rparr>"

text \<open>A form for a custom plan of the given length that starts on the given date.\<close>

definition custom_form :: "string \<Rightarrow> string \<Rightarrow> form" where
  "custom_form w d =
     \<lparr>form_exam_type = Some ''Custom'', form_custom_name = Some ''Algebra'',
      form_weeks = Some w, form_hours_per_day = Some ''4'', form_subjects = [''Math''],
      form_start_date = Some d\<rparr>"

text \<open>A parsed reply whose only question has three options.\<close>

definition three_options :: json where
  "three_options =
     JArr [JObj [(''question'', JStr ''1+1?''),
                 (''options'', JArr [JStr ''1'', JStr ''2'', JStr ''3'']),
                 (''answer'', JStr ''2'')]]"


definition one_schedule_store :: store where
  "one_schedule_store =
     run_operations None rejecting_loads example_clock
       [Create (custom_form ''12'' ''2024-01-01'')] empty_store"

text \<open>The store after a schedule of zero weeks was created.\<close>

definition zero_weeks_store :: store where
  "zero_weeks_store =
     run_operations None rejecting_loads example_clock
       [Create (custom_form ''0'' ''2024-01-01'')] empty_store"

text \<open>The store after two schedules were created, the first deleted, and a third created.\<close>

definition collided_store :: store where
  "collided_store =
     run_operations None rejecting_loads example_clock
       [Create (custom_form ''12'' ''2024-01-01''), Create (custom_form ''12'' ''2024-01-01''),
        Delete 1, Create (custom_form ''12'' ''2024-01-01'')] empty_store"

subsection \<open>Conditions and reference operations in the specification's words\<close>

text \<open>
  The cases in which the specification sends the quiz generator to its placeholders: no
  configured client, a call that raises, a reply with no \<open>[\<close> or no \<open>]\<close>, a slice
  that does not parse or cannot be iterated, and no parsed element that passes validation.
\<close>

definition mcq_fallback_case ::
  "gen_client option \<Rightarrow> (string \<Rightarrow> json option) \<Rightarrow> string \<Rightarrow> int \<Rightarrow> string \<Rightarrow> bool" where
  "mcq_fallback_case client json_loads subject num_questions difficulty =
     (case client of
        None \<Rightarrow> True
      | Some gen \<Rightarrow>
          (case gen (mcq_prompt subject num_questions difficulty) of
             GenRaises \<Rightarrow> True
           | GenText t \<Rightarrow>
               (let text = strip t
                in find_char CHR ''['' text = -1 \<or> rfind_char CHR '']'' text = -1
                   \<or> (case json_loads (slice text (find_char CHR ''['' text)
                                          (rfind_char CHR '']'' text + 1)) of
                         None \<Rightarrow> True
                       | Some v \<Rightarrow>
                           (case py_iter v of
                              Inl e \<Rightarrow> True
                            | Inr qs \<Rightarrow> list_all (\<lambda>q. \<not> valid_mcq q) qs)))))"

text \<open>Deleting as the specification words it: the first record with the id goes.\<close>

fun remove_first_with_id :: "int \<Rightarrow> schedule list \<Rightarrow> schedule list" where
  "remove_first_with_id i [] = []"
| "remove_first_with_id i (s # ss) =
     (if sched_id s = i then ss else s # remove_first_with_id i ss)"

section \<open>The answer resolver\<close>

lemma questions_get_nonempty: "questions_get sub q = Some a \<Longrightarrow> a \<noteq> []"
  by (auto simp: questions_get_def questions_def split: if_splits option.splits)

lemmas answer_eval =
  get_answer_def get_answer_try_def questions_get_def questions_def strip_def is_space_def
  Let_def answer_prompt_def no_answers_def raising_client_def replying_client_def
  unavailable_message_def empty_answer_message_def failure_message_def

subsection \<open>Pre-written answers\<close>

text \<open>
  Without a configured client the availability check returns before the bank is read:
  the pre-written question "What is 2+2?" of Math gets the unavailability message, not
  its answer "2+2 = 4".
\<close>

theorem get_answer_bank_unconfigured_counterexample:
  "questions_get ''Math'' ''What is 2+2?'' = Some ''2+2 = 4''
   \<and> fst (get_answer None ''Math'' ''What is 2+2?'' no_answers) = Inr unavailable_message
   \<and> unavailable_message \<noteq> ''2+2 = 4''"
  by (simp add: answer_eval)

text \<open>
  Claim C1, as amended. For every (subject, question) pair of the question bank: with a
  configured client, \<open>get_answer\<close> returns the bank's answer string, whatever the cache
  holds and whatever the client would do, and changes neither the cache nor the cache
  file and sends no prompt; with no configured client it returns the unavailability
  message, since the availability check precedes the bank lookup.
\<close>

theorem get_answer_bank:
  assumes "questions_get sub question = Some a"
  shows "get_answer (Some gen) sub question st = (Inr a, st)
       \<and> get_answer None sub question st = (Inr unavailable_message, st)"
  using assms questions_get_nonempty [OF assms] by (simp add: get_answer_def)

theorem get_answer_bank_witness:
  "questions_get ''Math'' ''What is 2+2?'' = Some ''2+2 = 4''
   \<and> get_answer (Some raising_client) ''Math'' ''What is 2+2?''
        \<lparr>ai_cache = [(''What is 2+2?'', ''5'')], ai_cache_file = None, gen_calls = []\<rparr>
      = (Inr ''2+2 = 4'',
         \<lparr>ai_cache = [(''What is 2+2?'', ''5'')], ai_cache_file = None, gen_calls = []\<rparr>)"
proof -
  have h: "questions_get ''Math'' ''What is 2+2?'' = Some ''2+2 = 4''"
    by (simp add: questions_get_def questions_def)
  show ?thesis
    using h get_answer_bank [OF h, of raising_client
        "\<lparr>ai_cache = [(''What is 2+2?'', ''5'')], ai_cache_file = None, gen_calls = []\<rparr>"]
    by simp
qed

subsection \<open>Cached answers\<close>

text \<open>
  A cached question is not always answered from the cache. With a configured client the
  bank comes first: "What is 2+2?" cached as "5" is answered "2+2 = 4" for Math. With no
  configured client the same cached question gets the unavailability message.
\<close>

theorem get_answer_cached_counterexample:
  "map_of [(''What is 2+2?'', ''5'')] ''What is 2+2?'' = Some ''5''
   \<and> fst (get_answer (Some raising_client) ''Math'' ''What is 2+2?''
        \<lparr>ai_cache = [(''What is 2+2?'', ''5'')], ai_cache_file = None, gen_calls = []\<rparr>)
      = Inr ''2+2 = 4''
   \<and> fst (get_answer None ''Art'' ''What is 2+2?''
        \<lparr>ai_cache = [(''What is 2+2?'', ''5'')], ai_cache_file = None, gen_calls = []\<rparr>)
      = Inr unavailable_message
   \<and> unavailable_message \<noteq> ''5''"
  by (simp add: answer_eval)

text \<open>
  Claim C5, as amended. For every subject and every question present in the cache,
  \<open>get_answer\<close> never calls the generation client and leaves the state as it was, in
  every state of the client. With a configured client it returns the cached value
  verbatim when the bank has no answer for the pair, and the bank's answer when it has
  one; with no configured client it returns the unavailability message.
\<close>

theorem get_answer_cached:
  assumes "map_of (ai_cache st) question = Some c"
  shows "snd (get_answer client sub question st) = st
       \<and> (questions_get sub question = None \<longrightarrow>
            get_answer (Some gen) sub question st = (Inr c, st))
       \<and> (\<forall>a. questions_get sub question = Some a \<longrightarrow>
            get_answer (Some gen) sub question st = (Inr a, st))
       \<and> get_answer None sub question st = (Inr unavailable_message, st)"
  using assms questions_get_nonempty [of sub question]
  by (cases client) (auto simp: get_answer_def Let_def)

theorem get_answer_cached_witness:
  "map_of (ai_cache \<lparr>ai_cache = [(''Why?'', ''Because.'')], ai_cache_file = None,
                     gen_calls = []\<rparr>) ''Why?'' = Some ''Because.''
   \<and> questions_get ''Math'' ''Why?'' = None
   \<and> get_answer (Some raising_client) ''Math'' ''Why?''
        \<lparr>ai_cache = [(''Why?'', ''Because.'')], ai_cache_file = None, gen_calls = []\<rparr>
      = (Inr ''Because.'',
         \<lparr>ai_cache = [(''Why?'', ''Because.'')], ai_cache_file = None, gen_calls = []\<rparr>)"
proof -
  have h: "map_of (ai_cache \<lparr>ai_cache = [(''Why?'', ''Because.'')], ai_cache_file = None,
                            gen_calls = []\<rparr>) ''Why?'' = Some ''Because.''"
    by simp
  have q: "questions_get ''Math'' ''Why?'' = None"
    by (simp add: questions_get_def questions_def)
  show ?thesis
    using h q get_answer_cached [OF h, of "Some raising_client" "''Math''" raising_client]
    by simp
qed

subsection \<open>Generation\<close>

text \<open>
  Claim C2, on the code. The client answers a question that is neither pre-written nor
  cached with blanks. \<open>get_answer\<close> returns the sentinel for an empty answer, yet the
  assignment to the cache and the write of the cache file come before that test: the
  cache and the file now map the question to the empty string, and asking the same
  question again returns the empty string from the cache.
\<close>

theorem get_answer_caches_empty_answer:
  "get_answer (Some (replying_client ''  '')) ''Math'' ''Why?'' no_answers
     = (Inr empty_answer_message,
        \<lparr>ai_cache = [(''Why?'', [])], ai_cache_file = Some [(''Why?'', [])],
         gen_calls = [answer_prompt ''Math'' ''Why?'']\<rparr>)
   \<and> fst (get_answer (Some (replying_client ''  '')) ''Math'' ''Why?''
        (snd (get_answer (Some (replying_client ''  '')) ''Math'' ''Why?'' no_answers)))
     = Inr []"
  by (simp add: get_answer_def get_answer_try_def questions_get_def questions_def strip_def
      is_space_def Let_def no_answers_def replying_client_def)

text \<open>
  Claim C6. When the call to the generation client is made (the question is neither
  pre-written nor cached) and raises, \<open>get_answer\<close> returns the failure sentinel as an
  ordinary result, and the cache and the cache file are what they were: the only change
  of the state is the record of the prompt that was sent.
\<close>

theorem get_answer_generation_raises:
  assumes "questions_get sub question = None"
    and "map_of (ai_cache st) question = None"
    and "gen (answer_prompt sub question) = GenRaises"
  shows "get_answer (Some gen) sub question st
         = (Inr failure_message, st\<lparr>gen_calls := gen_calls st @ [answer_prompt sub question]\<rparr>)"
  using assms by (simp add: get_answer_def get_answer_try_def Let_def)

theorem get_answer_generation_raises_witness:
  "questions_get ''Math'' ''Why?'' = None
   \<and> map_of (ai_cache no_answers) ''Why?'' = None
   \<and> raising_client (answer_prompt ''Math'' ''Why?'') = GenRaises
   \<and> get_answer (Some raising_client) ''Math'' ''Why?'' no_answers
      = (Inr failure_message,
         \<lparr>ai_cache = [], ai_cache_file = None, gen_calls = [answer_prompt ''Math'' ''Why?'']\<rparr>)"
proof -
  have q: "questions_get ''Math'' ''Why?'' = None"
    by (simp add: questions_get_def questions_def)
  have c: "map_of (ai_cache no_answers) ''Why?'' = None"
    by (simp add: no_answers_def)
  have g: "raising_client (answer_prompt ''Math'' ''Why?'') = GenRaises"
    by (simp add: raising_client_def)
  show ?thesis
    using q c g get_answer_generation_raises [where gen = raising_client, OF q c g]
    by (simp add: no_answers_def)
qed

section \<open>The quiz generator\<close>

lemma fallback_mcqs_length: "length (fallback_mcqs subject n) = nat n"
  by (simp add: fallback_mcqs_def)

lemma fallback_mcqs_shape:
  "q \<in> set (fallback_mcqs subject n) \<Longrightarrow>
     \<exists>t. q = JObj [(''question'', JStr t),
                   (''options'', JArr [JStr ''Option A'', JStr ''Option B'', JStr ''Option C'',
                                       JStr ''Option D'']),
                   (''answer'', JStr ''Option A'')]"
  by (auto simp: fallback_mcqs_def sample_mcq_def)

lemma generate_ai_mcqs_returns: "\<exists>r. generate_ai_mcqs client jl subject n d = Inr r"
  by (simp add: generate_ai_mcqs_def split: option.splits sum.splits)

lemma generate_ai_mcqs_fallback_case:
  "mcq_fallback_case client jl subject n d \<Longrightarrow>
     generate_ai_mcqs client jl subject n d = Inr (fallback_mcqs subject n)"
  by (auto simp: mcq_fallback_case_def generate_ai_mcqs_def generate_ai_mcqs_try_def Let_def
        filter_empty_conv list_all_iff
      split: option.splits gen_response.splits sum.splits if_splits)

lemma fallback_mcqs_two:
  "fallback_mcqs ''Math'' 2 =
     [JObj [(''question'', JStr ''Sample Math question 1?''),
            (''options'', JArr [JStr ''Option A'', JStr ''Option B'', JStr ''Option C'',
                                JStr ''Option D'']),
            (''answer'', JStr ''Option A'')],
      JObj [(''question'', JStr ''Sample Math question 2?''),
            (''options'', JArr [JStr ''Option A'', JStr ''Option B'', JStr ''Option C'',
                                JStr ''Option D'']),
            (''answer'', JStr ''Option A'')]]"
  by (simp add: fallback_mcqs_def upto.simps sample_mcq_def py_str_def digits_of.simps)

text \<open>
  Claim C7. \<open>generate_ai_mcqs\<close> returns a list on every input, never an exception. When
  the client is not configured, the call raises, no JSON array is located or parsed, or no
  parsed element passes validation, the list is the placeholder list: as many items as
  requested (none for a negative request), each with the four fixed option labels and the
  first of them as its answer.
\<close>

theorem generate_ai_mcqs_fallback:
  "(\<exists>r. generate_ai_mcqs client jl subject n d = Inr r)
   \<and> (mcq_fallback_case client jl subject n d \<longrightarrow>
        generate_ai_mcqs client jl subject n d = Inr (fallback_mcqs subject n))
   \<and> length (fallback_mcqs subject n) = nat n
   \<and> (\<forall>q \<in> set (fallback_mcqs subject n).
        \<exists>t. q = JObj [(''question'', JStr t),
                      (''options'', JArr [JStr ''Option A'', JStr ''Option B'',
                                          JStr ''Option C'', JStr ''Option D'']),
                      (''answer'', JStr ''Option A'')])"
  using generate_ai_mcqs_returns generate_ai_mcqs_fallback_case fallback_mcqs_length
    fallback_mcqs_shape by blast

theorem generate_ai_mcqs_fallback_witness:
  "mcq_fallback_case (Some (replying_client ''Sure: [1] ok'')) (constant_loads three_options)
     ''Math'' 2 ''medium''
   \<and> generate_ai_mcqs (Some (replying_client ''Sure: [1] ok'')) (constant_loads three_options)
        ''Math'' 2 ''medium''
      = Inr [JObj [(''question'', JStr ''Sample Math question 1?''),
                   (''options'', JArr [JStr ''Option A'', JStr ''Option B'', JStr ''Option C'',
                                       JStr ''Option D'']),
                   (''answer'', JStr ''Option A'')],
             JObj [(''question'', JStr ''Sample Math question 2?''),
                   (''options'', JArr [JStr ''Option A'', JStr ''Option B'', JStr ''Option C'',
                                       JStr ''Option D'']),
                   (''answer'', JStr ''Option A'')]]"
proof -
  have h: "mcq_fallback_case (Some (replying_client ''Sure: [1] ok''))
             (constant_loads three_options) ''Math'' 2 ''medium''"
    by (simp add: mcq_fallback_case_def replying_client_def constant_loads_def
        three_options_def strip_def is_space_def rfind_char_def valid_mcq_def Let_def)
  show ?thesis
    using h generate_ai_mcqs_fallback [of "Some (replying_client ''Sure: [1] ok'')"
        "constant_loads three_options" "''Math''" 2 "''medium''"]
    by (simp add: fallback_mcqs_two)
qed

section \<open>The schedule store\<close>

lemmas store_eval =
  run_operations_def create_schedule_def view_schedule_def delete_schedule_def
  save_schedules_def records_def id_at_def empty_store_def custom_form_def example_clock_def
  example_strptime_def py_int_def strip_def is_space_def is_digit_def
  generate_ai_study_plan_def Let_def


lemma py_round1_example: "py_round1 (50 / 3) = 167 / 10"
  by code_simp


lemma map_filter_filter_id:
  "List.map_filter (heap st) (filter (\<lambda>r. id_at st r \<noteq> Some i) rs)
     = filter (\<lambda>s. sched_id s \<noteq> i) (List.map_filter (heap st) rs)"
  by (induction rs) (auto simp: map_filter_simps id_at_def split: option.splits)

lemma records_delete_schedule:
  "records (delete_schedule i st) = filter (\<lambda>s. sched_id s \<noteq> i) (records st)"
  by (simp add: delete_schedule_def save_schedules_def records_def map_filter_filter_id)

lemma set_map_filter: "s \<in> set (List.map_filter h rs) \<longleftrightarrow> (\<exists>r \<in> set rs. h r = Some s)"
  by (induction rs) (auto simp: map_filter_simps split: option.splits)

lemma set_records:
  "s \<in> set (records st) \<longleftrightarrow> (\<exists>r \<in> set (study_schedules st). heap st r = Some s)"
  by (simp add: records_def set_map_filter)

lemma delete_schedule_absent:
  assumes "i \<notin> sched_id ` set (records st)"
  shows "study_schedules (delete_schedule i st) = study_schedules st"
proof -
  have "\<forall>r \<in> set (study_schedules st). id_at st r \<noteq> Some i"
    using assms by (auto simp: set_records id_at_def image_iff)
  then show ?thesis
    by (simp add: delete_schedule_def save_schedules_def)
qed

lemma filter_remove_first:
  "distinct (map sched_id ss) \<Longrightarrow>
     filter (\<lambda>s. sched_id s \<noteq> i) ss = remove_first_with_id i ss"
proof (induction ss)
  case Nil
  then show ?case by simp
next
  case (Cons s ss)
  show ?case
  proof (cases "sched_id s = i")
    case True
    with Cons.prems have "\<forall>t \<in> set ss. sched_id t \<noteq> i" by (auto simp: image_iff)
    then have "filter (\<lambda>s. sched_id s \<noteq> i) ss = ss" by simp
    with True show ?thesis by simp
  next
    case False
    with Cons show ?thesis by simp
  qed
qed



subsection \<open>Identifiers\<close>

text \<open>
  Claim C4, on the code. From the empty store: create, create, delete the schedule with id
  1, create. The third creation assigns the length of the list plus one, which is 2 again:
  the store holds two schedules with id 2.
\<close>

theorem schedule_ids_collide:
  "map sched_id (records (run_operations None rejecting_loads example_clock
       [Create (custom_form ''12'' ''2024-01-01''), Create (custom_form ''12'' ''2024-01-01''),
        Delete 1, Create (custom_form ''12'' ''2024-01-01'')] empty_store)) = [2, 2]"
  by (simp add: store_eval)

subsection \<open>Viewing\<close>

text \<open>
  Claim C3, on the code. After a schedule is created the file holds it without
  \<open>current_week\<close> and \<open>progress\<close>. Viewing it assigns both keys on the dict that the
  list refers to, so the stored record has them; the next request that saves (here the
  deletion of an id that no schedule has) writes them to the file.
\<close>

theorem view_schedule_writes_stored_record:
  "schedules_file (run_operations None rejecting_loads example_clock
      [Create (custom_form ''12'' ''2024-01-01'')] empty_store)
   = Some [\<lparr>sched_id = 1, name = ''Algebra'', exam_type = Some ''Custom'',
        subjects = [''Math''], weeks = 12, hours_per_day = 4,
        created_date = ''2024-01-11'', start_date = ''2024-01-01'',
        status = ''active'', ai_plan = None, current_week = None,
        progress = None\<rparr>]
   \<and> records (run_operations None rejecting_loads example_clock
      [Create (custom_form ''12'' ''2024-01-01''), View 1] empty_store)
   = [\<lparr>sched_id = 1, name = ''Algebra'', exam_type = Some ''Custom'',
        subjects = [''Math''], weeks = 12, hours_per_day = 4,
        created_date = ''2024-01-11'', start_date = ''2024-01-01'',
        status = ''active'', ai_plan = None, current_week = Some 2,
        progress = Some (167 / 10)\<rparr>]
   \<and> schedules_file (run_operations None rejecting_loads example_clock
      [Create (custom_form ''12'' ''2024-01-01''), View 1, Delete 7] empty_store)
   = Some [\<lparr>sched_id = 1, name = ''Algebra'', exam_type = Some ''Custom'',
        subjects = [''Math''], weeks = 12, hours_per_day = 4,
        created_date = ''2024-01-11'', start_date = ''2024-01-01'',
        status = ''active'', ai_plan = None, current_week = Some 2,
        progress = Some (167 / 10)\<rparr>]"
  by (simp add: store_eval py_round1_example)




text \<open>
  Claim C10. For a stored schedule that the id finds: \<open>view_schedule\<close> returns only if
  \<open>weeks\<close> is not zero; with \<open>weeks\<close> zero and a start date that parses it raises
  ZeroDivisionError; with \<open>weeks\<close> not zero and a start date that parses it returns.
  Such a schedule can be created: the form value "0" for weeks is accepted and stored as
  0, and viewing the schedule raises ZeroDivisionError.
\<close>

theorem view_schedule_zero_weeks:
  "(List.find (\<lambda>r. id_at st r = Some i) (study_schedules st) = Some r \<and> heap st r = Some s \<longrightarrow>
      ((\<exists>out. view_schedule clk i st = Inr out) \<longrightarrow> weeks s \<noteq> 0)
      \<and> (weeks s = 0 \<and> strptime clk (start_date s) \<noteq> None \<longrightarrow>
           view_schedule clk i st = Inl ZeroDivisionError)
      \<and> (weeks s \<noteq> 0 \<and> strptime clk (start_date s) \<noteq> None \<longrightarrow>
           (\<exists>out. view_schedule clk i st = Inr out)))
   \<and> map_sum id fst (create_schedule None rejecting_loads example_clock
        (custom_form ''0'' ''2024-01-01'') empty_store) = Inr 1
   \<and> map weeks (records zero_weeks_store) = [0]
   \<and> view_schedule example_clock 1 zero_weeks_store = Inl ZeroDivisionError"
proof -
  have a: "((\<exists>out. view_schedule clk i st = Inr out) \<longrightarrow> weeks s \<noteq> 0)
      \<and> (weeks s = 0 \<and> strptime clk (start_date s) \<noteq> None \<longrightarrow>
           view_schedule clk i st = Inl ZeroDivisionError)
      \<and> (weeks s \<noteq> 0 \<and> strptime clk (start_date s) \<noteq> None \<longrightarrow>
           (\<exists>out. view_schedule clk i st = Inr out))"
    if "List.find (\<lambda>r. id_at st r = Some i) (study_schedules st) = Some r" "heap st r = Some s"
    using that by (auto simp: view_schedule_def Let_def split: option.splits)
  have b: "map_sum id fst (create_schedule None rejecting_loads example_clock
        (custom_form ''0'' ''2024-01-01'') empty_store) = Inr 1"
    by (simp add: store_eval)
  have c: "map weeks (records zero_weeks_store) = [0]"
    by (simp add: zero_weeks_store_def store_eval)
  have d: "view_schedule example_clock 1 zero_weeks_store = Inl ZeroDivisionError"
    by (simp add: zero_weeks_store_def store_eval)
  show ?thesis using a b c d by blast
qed

theorem view_schedule_zero_weeks_witness:
  "List.find (\<lambda>r. id_at zero_weeks_store r = Some 1) (study_schedules zero_weeks_store) = Some 0
   \<and> map_option weeks (heap zero_weeks_store 0) = Some 0
   \<and> map_option (\<lambda>s. strptime example_clock (start_date s)) (heap zero_weeks_store 0)
      = Some (Some 0)
   \<and> view_schedule example_clock 1 zero_weeks_store = Inl ZeroDivisionError"
  using view_schedule_zero_weeks [of zero_weeks_store 1 0]
  by (simp add: zero_weeks_store_def store_eval)

subsection \<open>Deleting\<close>

text \<open>
  Deleting removes more than the first match: in the store that holds two schedules with
  id 2, deleting id 2 leaves none, where removing the first match would leave one.
\<close>

theorem delete_schedule_first_only_counterexample:
  "map sched_id (records collided_store) = [2, 2]
   \<and> map sched_id (records (delete_schedule 2 collided_store)) = []
   \<and> map sched_id (remove_first_with_id 2 (records collided_store)) = [2]"
  by (simp add: collided_store_def store_eval)

text \<open>
  Claim C9, as amended. \<open>delete_schedule\<close> removes every record whose id matches, keeps
  the others in their order, and then writes the whole collection to the file; the dicts
  themselves are untouched. Where the ids of the collection are distinct, that is the
  removal of the first and only match. For an id that no record has, the list of the
  collection is the same list after the call, and nothing is raised.
\<close>

theorem delete_schedule_removes_matching:
  "records (delete_schedule i st) = filter (\<lambda>s. sched_id s \<noteq> i) (records st)
   \<and> schedules_file (delete_schedule i st) = Some (records (delete_schedule i st))
   \<and> heap (delete_schedule i st) = heap st
   \<and> (i \<notin> sched_id ` set (records st) \<longrightarrow>
        study_schedules (delete_schedule i st) = study_schedules st
        \<and> records (delete_schedule i st) = records st)
   \<and> (distinct (map sched_id (records st)) \<longrightarrow>
        records (delete_schedule i st) = remove_first_with_id i (records st))"
proof -
  have a: "records (delete_schedule i st) = filter (\<lambda>s. sched_id s \<noteq> i) (records st)"
    by (rule records_delete_schedule)
  have b: "schedules_file (delete_schedule i st) = Some (records (delete_schedule i st))"
    by (simp add: delete_schedule_def save_schedules_def records_def)
  have c: "heap (delete_schedule i st) = heap st"
    by (simp add: delete_schedule_def save_schedules_def)
  have d: "records (delete_schedule i st) = records st" if "i \<notin> sched_id ` set (records st)"
  proof -
    from that have "\<forall>s \<in> set (records st). sched_id s \<noteq> i" by auto
    then show ?thesis by (simp add: a)
  qed
  have e: "records (delete_schedule i st) = remove_first_with_id i (records st)"
    if "distinct (map sched_id (records st))"
    using that by (simp add: a filter_remove_first)
  show ?thesis
    using a b c d e delete_schedule_absent by blast
qed

theorem delete_schedule_removes_matching_witness:
  "7 \<notin> sched_id ` set (records one_schedule_store)
   \<and> distinct (map sched_id (records one_schedule_store))
   \<and> study_schedules (delete_schedule 7 one_schedule_store) = study_schedules one_schedule_store
   \<and> records (delete_schedule 7 one_schedule_store) = records one_schedule_store
   \<and> records (delete_schedule 1 one_schedule_store)
      = remove_first_with_id 1 (records one_schedule_store)"
proof -
  have h: "7 \<notin> sched_id ` set (records one_schedule_store)"
    by (simp add: one_schedule_store_def store_eval)
  have k: "distinct (map sched_id (records one_schedule_store))"
    by (simp add: one_schedule_store_def store_eval)
  show ?thesis
    using h k delete_schedule_removes_matching [of 7 one_schedule_store]
      delete_schedule_removes_matching [of 1 one_schedule_store]
    by blast
qed

end
